theory Spec2Isabelle
  imports Main
begin

section \<open>Data model\<close>

text \<open>
  The repository holds two copies of the timer component: \<^verbatim>\<open>src/App.tsx\<close> and a second
  file of unknown name (\<^verbatim>\<open>unnamed/part_000\<close>). Most handlers are the same text in both;
  where they differ the definitions below branch on the variant.
\<close>

datatype variant = App_tsx | Part_000

text \<open>
  The audio output. \<^verbatim>\<open>App.tsx\<close> plays a Tone.js synthesiser note
  (\<^verbatim>\<open>triggerAttackRelease("C4", "0.5")\<close>, which ends by itself); \<^verbatim>\<open>part_000\<close> plays
  \<^verbatim>\<open>new Audio('/beep.mp3')\<close> with its \<^verbatim>\<open>loop\<close> flag.
\<close>

datatype sound = Synth | Beep bool

fun oneShot :: "sound \<Rightarrow> bool" where
  "oneShot Synth = True"
| "oneShot (Beep loop) = (\<not> loop)"

text \<open>
  The component state: the seven \<^verbatim>\<open>useState\<close> cells that make the session (numbers are
  modelled as \<^typ>\<open>int\<close>, exact for JavaScript numbers below \<open>2 ^ 53\<close>; \<^verbatim>\<open>mode\<close> and
  \<^verbatim>\<open>status\<close> are plain strings in the source), the \<^verbatim>\<open>audioRef\<close> of \<^verbatim>\<open>part_000\<close>
  (\<open>None\<close> is \<^verbatim>\<open>null\<close>, \<open>Some loop\<close> an audio element with that loop flag), and the
  sounds started so far, oldest first.
\<close>

record app =
  focusDuration :: int
  breakDuration :: int
  mode :: string
  status :: string
  timeLeft :: int
  completionMessage :: string
  deadline :: "int option"
  audioRef :: "bool option"
  played :: "sound list"

definition defaultFocus :: "variant \<Rightarrow> int" where
  "defaultFocus v = (case v of App_tsx \<Rightarrow> 50 | Part_000 \<Rightarrow> 30)"

definition initial :: "variant \<Rightarrow> app" where
  "initial v =
     \<lparr>focusDuration = defaultFocus v, breakDuration = 10, mode = ''focus'',
      status = ''idle'', timeLeft = defaultFocus v * 60, completionMessage = '''',
      deadline = None, audioRef = None, played = []\<rparr>"

section \<open>Clock arithmetic\<close>

text \<open>
  \<^verbatim>\<open>Math.round(remaining / 1000)\<close> on an integer number of milliseconds:
  \<^verbatim>\<open>Math.round\<close> rounds to the nearest integer, halves towards plus infinity.
\<close>

definition roundSeconds :: "int \<Rightarrow> int" where
  "roundSeconds remaining = (remaining + 500) div 1000"

text \<open>The body of the interval callback: \<^verbatim>\<open>Math.max(0, Math.round((deadline - Date.now()) / 1000))\<close>.\<close>

definition remainingSeconds :: "int \<Rightarrow> int \<Rightarrow> int" where
  "remainingSeconds d now = max 0 (roundSeconds (d - now))"

section \<open>Persistence\<close>

text \<open>
  What \<^verbatim>\<open>JSON.parse\<close> returns for an object: each field is present with a value of its
  type, or absent (\<open>None\<close>; for \<^verbatim>\<open>deadline\<close> also \<^verbatim>\<open>null\<close>). Fields holding a value
  of another type are outside this model.
\<close>

record snapshot =
  sv_focusDuration :: "int option"
  sv_breakDuration :: "int option"
  sv_mode :: "string option"
  sv_status :: "string option"
  sv_timeLeft :: "int option"
  sv_completionMessage :: "string option"
  sv_deadline :: "int option"

text \<open>
  What is stored under the key \<^verbatim>\<open>pomodoroAppState\<close>, seen through
  \<^verbatim>\<open>localStorage.getItem\<close> and \<^verbatim>\<open>JSON.parse\<close>: nothing (or the empty string, which is
  falsy too), a text on which \<^verbatim>\<open>JSON.parse\<close> throws, the text \<^verbatim>\<open>null\<close> (reading a
  property of it throws), or a value whose properties can be read.
\<close>

datatype stored = NoItem | BadJSON | JsonNull | Json snapshot

text \<open>The save effect: \<^verbatim>\<open>JSON.stringify\<close> of the seven cells.\<close>

definition save :: "app \<Rightarrow> stored" where
  "save s = Json
     \<lparr>sv_focusDuration = Some (focusDuration s), sv_breakDuration = Some (breakDuration s),
      sv_mode = Some (mode s), sv_status = Some (status s), sv_timeLeft = Some (timeLeft s),
      sv_completionMessage = Some (completionMessage s), sv_deadline = deadline s\<rparr>"

text \<open>\<^verbatim>\<open>x || d\<close> on a number (0 is falsy) and on a string (the empty string is falsy).\<close>

definition orNum :: "int option \<Rightarrow> int \<Rightarrow> int" where
  "orNum x d = (case x of None \<Rightarrow> d | Some n \<Rightarrow> if n = 0 then d else n)"

definition orStr :: "string option \<Rightarrow> string \<Rightarrow> string" where
  "orStr x d = (case x of None \<Rightarrow> d | Some t \<Rightarrow> if t = [] then d else t)"

text \<open>The setters that precede the branch on \<^verbatim>\<open>savedState.status\<close>.\<close>

definition loadConfig :: "variant \<Rightarrow> snapshot \<Rightarrow> app" where
  "loadConfig v j = (initial v)
     \<lparr>focusDuration := orNum (sv_focusDuration j) (defaultFocus v),
      breakDuration := orNum (sv_breakDuration j) 10,
      mode := orStr (sv_mode j) ''focus'',
      completionMessage := orStr (sv_completionMessage j) ''''\<rparr>"

text \<open>The branch taken when \<^verbatim>\<open>savedState.status === "running" && savedState.deadline\<close>.\<close>

definition loadRunning :: "variant \<Rightarrow> int \<Rightarrow> snapshot \<Rightarrow> int \<Rightarrow> app" where
  "loadRunning v now j d =
     (let remaining = d - now in
      if remaining > 0
      then (loadConfig v j)\<lparr>timeLeft := roundSeconds remaining, status := ''running'', deadline := Some d\<rparr>
      else (loadConfig v j)\<lparr>timeLeft := 0, status := ''running'', deadline := Some d\<rparr>)"

text \<open>The other branch: the stored status and \<^verbatim>\<open>timeLeft\<close> are taken as they are.\<close>

definition loadStopped :: "variant \<Rightarrow> snapshot \<Rightarrow> app" where
  "loadStopped v j = (loadConfig v j)
     \<lparr>status := orStr (sv_status j) ''idle'',
      timeLeft := (case sv_timeLeft j of Some t \<Rightarrow> t
                   | None \<Rightarrow> orNum (sv_focusDuration j) (defaultFocus v) * 60),
      deadline := None\<rparr>"

text \<open>
  The load effect, run once on mount at wall-clock time \<open>now\<close>. It returns the state after
  its setters and what the key holds afterwards; the \<^verbatim>\<open>catch\<close> block removes the key and
  sets nothing.
\<close>

definition load :: "variant \<Rightarrow> int \<Rightarrow> stored \<Rightarrow> app \<times> stored" where
  "load v now st =
     (case st of
        NoItem \<Rightarrow> (initial v, NoItem)
      | BadJSON \<Rightarrow> (initial v, NoItem)
      | JsonNull \<Rightarrow> (initial v, NoItem)
      | Json j \<Rightarrow>
          (case sv_deadline j of
             None \<Rightarrow> (loadStopped v j, st)
           | Some d \<Rightarrow>
               if sv_status j = Some ''running'' \<and> d \<noteq> 0
               then (loadRunning v now j d, st)
               else (loadStopped v j, st)))"

section \<open>Audio\<close>

text \<open>
  \<^verbatim>\<open>playSound\<close>. In \<^verbatim>\<open>App.tsx\<close> it takes no argument and plays the synthesiser note
  when \<^verbatim>\<open>window.Tone\<close> is defined (\<open>tone\<close>), and only warns otherwise. In \<^verbatim>\<open>part_000\<close>
  it replaces the current audio element by a new one with the given loop flag.
\<close>

definition playSound :: "variant \<Rightarrow> bool \<Rightarrow> bool \<Rightarrow> app \<Rightarrow> app" where
  "playSound v tone loop s =
     (case v of
        App_tsx \<Rightarrow> if tone then s\<lparr>played := played s @ [Synth]\<rparr> else s
      | Part_000 \<Rightarrow> s\<lparr>audioRef := Some loop, played := played s @ [Beep loop]\<rparr>)"

definition stopSound :: "app \<Rightarrow> app" where
  "stopSound s = s\<lparr>audioRef := None\<rparr>"

section \<open>Handlers\<close>

definition handleTimerCompletion :: "variant \<Rightarrow> bool \<Rightarrow> app \<Rightarrow> app" where
  "handleTimerCompletion v tone s =
     (let s1 = s\<lparr>deadline := None, status := ''idle''\<rparr> in
      case v of
        App_tsx \<Rightarrow>
          if mode s = ''focus''
          then s1\<lparr>mode := ''break'', completionMessage := ''Foco finalizado'',
                  timeLeft := breakDuration s * 60\<rparr>
          else playSound App_tsx tone False
                 (s1\<lparr>mode := ''focus'', completionMessage := ''Fim da pausa'',
                     timeLeft := focusDuration s * 60\<rparr>)
      | Part_000 \<Rightarrow>
          if mode s = ''focus''
          then s1\<lparr>breakDuration := 10, mode := ''break'',
                  completionMessage := ''Foco finalizado'', timeLeft := 10 * 60\<rparr>
          else (playSound Part_000 tone True s1)
                 \<lparr>focusDuration := 30, breakDuration := 10, mode := ''focus'',
                  completionMessage := '''', timeLeft := 30 * 60\<rparr>)"

text \<open>
  The first lines of the timer effect, which runs after every render in which
  \<^verbatim>\<open>status\<close>, \<^verbatim>\<open>deadline\<close> or \<^verbatim>\<open>timeLeft\<close> changed.
\<close>

definition timerEffect :: "variant \<Rightarrow> bool \<Rightarrow> app \<Rightarrow> app" where
  "timerEffect v tone s =
     (if timeLeft s \<le> 0 \<and> status s = ''running'' then handleTimerCompletion v tone s else s)"

text \<open>
  The interval callback at wall-clock time \<open>now\<close>. The timer effect returns before
  \<^verbatim>\<open>setInterval\<close> when it calls the completion handler; otherwise the interval exists
  while \<^verbatim>\<open>status === "running" && deadline\<close> holds (a deadline of 0 is falsy).
\<close>

definition tick :: "int \<Rightarrow> app \<Rightarrow> app" where
  "tick now s =
     (if timeLeft s \<le> 0 \<and> status s = ''running'' then s
      else case deadline s of
        None \<Rightarrow> s
      | Some d \<Rightarrow>
          if status s = ''running'' \<and> d \<noteq> 0 then s\<lparr>timeLeft := remainingSeconds d now\<rparr> else s)"

definition startTimer :: "variant \<Rightarrow> int \<Rightarrow> app \<Rightarrow> app" where
  "startTimer v now s =
     (let s0 = (case v of App_tsx \<Rightarrow> s | Part_000 \<Rightarrow> stopSound s) in
      s0\<lparr>completionMessage := '''', status := ''running'',
         deadline := Some (now + timeLeft s * 1000)\<rparr>)"

definition togglePause :: "int \<Rightarrow> app \<Rightarrow> app" where
  "togglePause now s =
     (if status s = ''running'' then s\<lparr>deadline := None, status := ''paused''\<rparr>
      else if status s = ''paused''
      then s\<lparr>deadline := Some (now + timeLeft s * 1000), status := ''running''\<rparr>
      else s)"

definition resetTimer :: "app \<Rightarrow> app" where
  "resetTimer s =
     s\<lparr>status := ''idle'', deadline := None, completionMessage := '''',
       timeLeft := (if mode s = ''focus'' then focusDuration s else breakDuration s) * 60\<rparr>"

definition resetToStart :: "variant \<Rightarrow> app \<Rightarrow> app" where
  "resetToStart v s =
     (case v of
        App_tsx \<Rightarrow>
          s\<lparr>mode := ''focus'', status := ''idle'', deadline := None,
            completionMessage := '''', timeLeft := focusDuration s * 60\<rparr>
      | Part_000 \<Rightarrow>
          s\<lparr>focusDuration := 30, mode := ''focus'', status := ''idle'', deadline := None,
            completionMessage := '''', timeLeft := 30 * 60\<rparr>)"

subsection \<open>Duration edits\<close>

text \<open>
  \<^verbatim>\<open>parseInt(input, 10)\<close>: leading white space is skipped, one sign is read, then the
  longest run of decimal digits; with no digit the result is \<^verbatim>\<open>NaN\<close> (\<open>None\<close>).
  White space is the ASCII part of what ECMAScript skips (an input that starts with
  U+00A0 or another Unicode space is outside this model), and the value is the exact
  integer, with which the source's double agrees below \<open>2 ^ 53\<close>.
\<close>

definition isWhiteSpace :: "char \<Rightarrow> bool" where
  "isWhiteSpace c = (c \<in> set [CHR 0x09, CHR 0x0A, CHR 0x0B, CHR 0x0C, CHR 0x0D, CHR 0x20])"

definition isDigit :: "char \<Rightarrow> bool" where
  "isDigit c = (c \<in> set ''0123456789'')"

definition digitValue :: "char \<Rightarrow> int" where
  "digitValue c = int (of_char c) - int (of_char CHR ''0'')"

fun digitsValue :: "int \<Rightarrow> string \<Rightarrow> int" where
  "digitsValue acc [] = acc"
| "digitsValue acc (c # cs) = digitsValue (acc * 10 + digitValue c) cs"

definition parseInt :: "string \<Rightarrow> int option" where
  "parseInt input =
     (let t = dropWhile isWhiteSpace input;
          neg = (case t of [] \<Rightarrow> False | c # _ \<Rightarrow> c = CHR ''-'');
          body = (case t of [] \<Rightarrow> []
                  | c # cs \<Rightarrow> if c = CHR ''+'' \<or> c = CHR ''-'' then cs else t);
          z = takeWhile isDigit body
      in if z = [] then None
         else Some ((if neg then - 1 else 1) * digitsValue 0 z))"

text \<open>\<^verbatim>\<open>parseInt(e.target.value, 10) || 1\<close>: \<^verbatim>\<open>NaN\<close> and 0 are the falsy numbers.\<close>

definition inputValue :: "string \<Rightarrow> int" where
  "inputValue input = orNum (parseInt input) 1"

definition updateFocusDuration :: "string \<Rightarrow> app \<Rightarrow> app" where
  "updateFocusDuration input s =
     (let v = inputValue input; s1 = s\<lparr>focusDuration := v\<rparr> in
      if status s = ''idle'' \<and> mode s = ''focus'' then s1\<lparr>timeLeft := v * 60\<rparr> else s1)"

definition updateBreakDuration :: "string \<Rightarrow> app \<Rightarrow> app" where
  "updateBreakDuration input s =
     (let v = inputValue input; s1 = s\<lparr>breakDuration := v\<rparr> in
      if status s = ''idle'' \<and> mode s = ''break'' then s1\<lparr>timeLeft := v * 60\<rparr> else s1)"

section \<open>Rendering and reachable states\<close>

text \<open>
  React runs the timer effect again after every render that changed one of its
  dependencies. \<open>renderLoop\<close> follows the renders from a state until the effect has
  nothing left to do, and counts the calls of \<^verbatim>\<open>handleTimerCompletion\<close> on the way.
\<close>

function renderLoop :: "variant \<Rightarrow> bool \<Rightarrow> app \<Rightarrow> nat \<times> app" where
  "renderLoop v tone s =
     (if timeLeft s \<le> 0 \<and> status s = ''running''
      then (case renderLoop v tone (handleTimerCompletion v tone s) of (n, s') \<Rightarrow> (Suc n, s'))
      else (0, s))"
  by pat_completeness auto
termination
  by (relation "measure (\<lambda>(v, tone, s). if timeLeft s \<le> 0 \<and> status s = ''running'' then 1 else 0)")
     (auto simp: handleTimerCompletion_def playSound_def Let_def split: variant.splits)

text \<open>A state on which the timer effect has nothing to do.\<close>

definition settled :: "app \<Rightarrow> bool" where
  "settled s = (\<not> (timeLeft s \<le> 0 \<and> status s = ''running''))"

text \<open>
  The states the component can be in. Each handler is taken as callable in every state
  (the buttons the page shows allow fewer calls); \<^verbatim>\<open>Date.now()\<close> is after the epoch;
  the page is reloaded only once the effects of the last render have run, so the snapshot
  read back is that of a settled state, and a reload starts from the initial state with
  no audio.
\<close>

inductive reachable :: "variant \<Rightarrow> app \<Rightarrow> bool" for v :: variant where
  mount: "reachable v (initial v)"
| start: "reachable v s \<Longrightarrow> 0 < now \<Longrightarrow> reachable v (startTimer v now s)"
| toggle: "reachable v s \<Longrightarrow> 0 < now \<Longrightarrow> reachable v (togglePause now s)"
| reset: "reachable v s \<Longrightarrow> reachable v (resetTimer s)"
| restart: "reachable v s \<Longrightarrow> reachable v (resetToStart v s)"
| editFocus: "reachable v s \<Longrightarrow> reachable v (updateFocusDuration input s)"
| editBreak: "reachable v s \<Longrightarrow> reachable v (updateBreakDuration input s)"
| interval: "reachable v s \<Longrightarrow> reachable v (tick now s)"
| effect: "reachable v s \<Longrightarrow> reachable v (timerEffect v tone s)"
| reload: "reachable v s \<Longrightarrow> settled s \<Longrightarrow> 0 < now \<Longrightarrow> reachable v (fst (load v now (save s)))"

text \<open>
  The invariant that carries the induction: a deadline is held exactly by a running
  session, and a deadline of 0 (which the load and the interval take for absent) only
  while the timer effect is still to complete the interval.
\<close>

definition deadlineInv :: "app \<Rightarrow> bool" where
  "deadlineInv s =
     (case deadline s of
        None \<Rightarrow> status s \<noteq> ''running''
      | Some d \<Rightarrow> status s = ''running'' \<and> (d \<noteq> 0 \<or> timeLeft s \<le> 0))"

section \<open>The session of the specification\<close>

text \<open>
  This predicate follows the words of the specification, not the code: its data model
  asks for positive durations, a mode among \<^verbatim>\<open>focus\<close> and \<^verbatim>\<open>break\<close>, a status among
  \<^verbatim>\<open>idle\<close>, \<^verbatim>\<open>running\<close> and \<^verbatim>\<open>paused\<close>, a non-negative \<^verbatim>\<open>timeLeft\<close>, and a
  deadline exactly when running. The source has no such check.
\<close>

definition spec_validSession :: "snapshot \<Rightarrow> bool" where
  "spec_validSession j =
     (case (sv_focusDuration j, sv_breakDuration j, sv_mode j, sv_status j, sv_timeLeft j,
            sv_completionMessage j) of
        (Some f, Some b, Some m, Some st, Some t, Some c) \<Rightarrow>
          0 < f \<and> 0 < b \<and> (m = ''focus'' \<or> m = ''break'')
          \<and> (st = ''idle'' \<or> st = ''running'' \<or> st = ''paused'') \<and> 0 \<le> t
          \<and> ((sv_deadline j \<noteq> None) = (st = ''running''))
      | _ \<Rightarrow> False)"

text \<open>A stored object whose status is none of the three.\<close>

definition corruptSnapshot :: snapshot where
  "corruptSnapshot =
     \<lparr>sv_focusDuration = Some 25, sv_breakDuration = Some 5, sv_mode = Some ''focus'',
      sv_status = Some ''stopped'', sv_timeLeft = Some 1500, sv_completionMessage = Some '''',
      sv_deadline = None\<rparr>"

text \<open>A break of a session with 25 minutes of focus configured, at the render where it ends.\<close>

definition breakEnding :: app where
  "breakEnding =
     \<lparr>focusDuration = 25, breakDuration = 10, mode = ''break'', status = ''running'',
      timeLeft = 0, completionMessage = '''', deadline = Some 1700000600000,
      audioRef = None, played = []\<rparr>"

section \<open>The deadline is held exactly while running\<close>

lemma handleTimerCompletion_status: "status (handleTimerCompletion v tone s) = ''idle''"
  by (cases v) (simp_all add: handleTimerCompletion_def playSound_def Let_def)

lemma handleTimerCompletion_deadline: "deadline (handleTimerCompletion v tone s) = None"
  by (cases v) (simp_all add: handleTimerCompletion_def playSound_def Let_def)

lemma deadlineInv_initial: "deadlineInv (initial v)"
  by (simp add: deadlineInv_def initial_def)

lemma deadlineInv_startTimer: "0 < now \<Longrightarrow> deadlineInv (startTimer v now s)"
  by (cases v) (auto simp: deadlineInv_def startTimer_def stopSound_def)

lemma deadlineInv_togglePause: "0 < now \<Longrightarrow> deadlineInv s \<Longrightarrow> deadlineInv (togglePause now s)"
  by (auto simp: deadlineInv_def togglePause_def split: option.splits)

lemma deadlineInv_resetTimer: "deadlineInv (resetTimer s)"
  by (simp add: deadlineInv_def resetTimer_def)

lemma deadlineInv_resetToStart: "deadlineInv (resetToStart v s)"
  by (cases v) (simp_all add: deadlineInv_def resetToStart_def)

lemma deadlineInv_updateFocusDuration: "deadlineInv s \<Longrightarrow> deadlineInv (updateFocusDuration input s)"
  by (auto simp: deadlineInv_def updateFocusDuration_def Let_def split: option.splits)

lemma deadlineInv_updateBreakDuration: "deadlineInv s \<Longrightarrow> deadlineInv (updateBreakDuration input s)"
  by (auto simp: deadlineInv_def updateBreakDuration_def Let_def split: option.splits)

lemma deadlineInv_tick: "deadlineInv s \<Longrightarrow> deadlineInv (tick now s)"
  by (auto simp: deadlineInv_def tick_def split: option.splits)

lemma deadlineInv_handleTimerCompletion: "deadlineInv (handleTimerCompletion v tone s)"
  by (simp add: deadlineInv_def handleTimerCompletion_status handleTimerCompletion_deadline)

lemma deadlineInv_timerEffect: "deadlineInv s \<Longrightarrow> deadlineInv (timerEffect v tone s)"
  by (simp add: timerEffect_def deadlineInv_handleTimerCompletion)

text \<open>
  Loading is where the settled snapshot matters: a running session that is settled has
  \<open>timeLeft > 0\<close>, so its deadline is not 0 and the load takes the running branch.
\<close>

lemma deadlineInv_load:
  assumes "deadlineInv s" and "settled s"
  shows "deadlineInv (fst (load v now (save s)))"
proof (cases "deadline s")
  case None
  with assms(1) have "status s \<noteq> ''running''" by (simp add: deadlineInv_def)
  with None show ?thesis
    by (simp add: load_def save_def loadStopped_def deadlineInv_def orStr_def)
next
  case (Some d)
  with assms have "status s = ''running''" and "d \<noteq> 0"
    by (auto simp: deadlineInv_def settled_def)
  with Some show ?thesis
    by (simp add: load_def save_def loadRunning_def deadlineInv_def Let_def)
qed

lemma reachable_deadlineInv: "reachable v s \<Longrightarrow> deadlineInv s"
proof (induction rule: reachable.induct)
  case mount show ?case by (rule deadlineInv_initial)
next
  case (start s now) then show ?case by (simp add: deadlineInv_startTimer)
next
  case (toggle s now) then show ?case by (simp add: deadlineInv_togglePause)
next
  case (reset s) show ?case by (rule deadlineInv_resetTimer)
next
  case (restart s) show ?case by (rule deadlineInv_resetToStart)
next
  case (editFocus s input) then show ?case by (simp add: deadlineInv_updateFocusDuration)
next
  case (editBreak s input) then show ?case by (simp add: deadlineInv_updateBreakDuration)
next
  case (interval s now) then show ?case by (simp add: deadlineInv_tick)
next
  case (effect s tone) then show ?case by (simp add: deadlineInv_timerEffect)
next
  case (reload s now) then show ?case by (simp add: deadlineInv_load)
qed

text \<open>
  Claim C1. In every reachable state of either variant the deadline is set if and only if
  the status is \<^verbatim>\<open>running\<close>. Reachability covers start, pause and resume, both resets,
  the duration edits, the interval callback, completion by the timer effect, and loading
  the snapshot the component saved.
\<close>

theorem deadline_iff_running:
  "reachable v s \<Longrightarrow> (deadline s \<noteq> None) = (status s = ''running'')"
  by (drule reachable_deadlineInv) (auto simp: deadlineInv_def split: option.splits)

theorem deadline_iff_running_witness:
  "reachable App_tsx (fst (load App_tsx 4000 (save (startTimer App_tsx 1000 (initial App_tsx)))))
   \<and> deadline (fst (load App_tsx 4000 (save (startTimer App_tsx 1000 (initial App_tsx))))) \<noteq> None
   \<and> status (fst (load App_tsx 4000 (save (startTimer App_tsx 1000 (initial App_tsx))))) = ''running''"
proof -
  have r: "reachable App_tsx (fst (load App_tsx 4000 (save (startTimer App_tsx 1000 (initial App_tsx)))))"
    by (intro reachable.reload reachable.start reachable.mount)
       (simp_all add: settled_def startTimer_def initial_def defaultFocus_def)
  have "status (fst (load App_tsx 4000 (save (startTimer App_tsx 1000 (initial App_tsx))))) = ''running''"
    by (simp add: load_def save_def startTimer_def initial_def defaultFocus_def loadRunning_def Let_def)
  with r deadline_iff_running [OF r] show ?thesis by simp
qed

section \<open>Completion happens exactly once\<close>

declare renderLoop.simps [simp del]

lemma renderLoop_settled: "settled s \<Longrightarrow> renderLoop v tone s = (0, s)"
  by (subst renderLoop.simps) (auto simp: settled_def)

lemma settled_handleTimerCompletion: "settled (handleTimerCompletion v tone s)"
  by (simp add: settled_def handleTimerCompletion_status)

lemma roundSeconds_below_half: "r < 500 \<Longrightarrow> roundSeconds r \<le> 0"
  by (simp add: roundSeconds_def)

lemma roundSeconds_nonneg: "0 < r \<Longrightarrow> 0 \<le> roundSeconds r"
  by (simp add: roundSeconds_def)

lemma remainingSeconds_nonneg: "0 \<le> remainingSeconds d now"
  by (simp add: remainingSeconds_def)

lemma renderLoop_at_most_once: "fst (renderLoop v tone s) \<le> 1"
proof (cases "settled s")
  case True
  then show ?thesis by (simp add: renderLoop_settled)
next
  case False
  have "renderLoop v tone (handleTimerCompletion v tone s) = (0, handleTimerCompletion v tone s)"
    by (rule renderLoop_settled) (rule settled_handleTimerCompletion)
  with False show ?thesis
    by (subst renderLoop.simps) (simp add: settled_def)
qed

text \<open>The two ways a running session comes to \<open>timeLeft = 0\<close>: the interval, and a reload.\<close>

lemma tick_reaches_zero:
  assumes "status s = ''running''" and "0 < timeLeft s" and "deadline s = Some d"
    and "d \<noteq> 0" and "d - now < 500"
  shows "timeLeft (tick now s) = 0 \<and> status (tick now s) = ''running''"
  using assms roundSeconds_below_half [of "d - now"]
  by (simp add: tick_def remainingSeconds_def)

lemma load_expired:
  assumes "sv_status j = Some ''running''" and "sv_deadline j = Some d" and "d \<noteq> 0"
    and "d - now < 500"
  shows "timeLeft (fst (load v now (Json j))) = 0 \<and> status (fst (load v now (Json j))) = ''running''"
  using assms roundSeconds_below_half [of "d - now"] roundSeconds_nonneg [of "d - now"]
  by (simp add: load_def loadRunning_def Let_def)

text \<open>
  Claim C2. From a running session whose \<^verbatim>\<open>timeLeft\<close> has come to 0 (or below), the
  renders that follow call the completion handler exactly once: the first render calls
  it, and the state it leaves is idle with no deadline, on which the effect does nothing.
\<close>

theorem completion_exactly_once:
  assumes "status s = ''running''" and "timeLeft s \<le> 0"
  shows "renderLoop v tone s = (1, handleTimerCompletion v tone s)
         \<and> status (snd (renderLoop v tone s)) = ''idle''
         \<and> deadline (snd (renderLoop v tone s)) = None"
proof -
  have "renderLoop v tone (handleTimerCompletion v tone s) = (0, handleTimerCompletion v tone s)"
    by (rule renderLoop_settled) (rule settled_handleTimerCompletion)
  with assms have "renderLoop v tone s = (1, handleTimerCompletion v tone s)"
    by (subst renderLoop.simps) simp
  then show ?thesis
    by (simp add: handleTimerCompletion_status handleTimerCompletion_deadline)
qed

text \<open>
  The witness takes both routes: ten minutes started and the interval firing at the
  deadline in \<^verbatim>\<open>App.tsx\<close>; the same session reloaded five minutes late in \<^verbatim>\<open>part_000\<close>.
\<close>

theorem completion_exactly_once_witness:
  "fst (renderLoop App_tsx True (tick 1700000600000 (startTimer App_tsx 1700000000000
      ((initial App_tsx)\<lparr>timeLeft := 600\<rparr>)))) = 1
   \<and> fst (renderLoop Part_000 True (fst (load Part_000 1700000900000
      (save (startTimer Part_000 1700000000000 ((initial Part_000)\<lparr>timeLeft := 600\<rparr>)))))) = 1"
proof -
  let ?a = "tick 1700000600000 (startTimer App_tsx 1700000000000 ((initial App_tsx)\<lparr>timeLeft := 600\<rparr>))"
  let ?b = "fst (load Part_000 1700000900000
      (save (startTimer Part_000 1700000000000 ((initial Part_000)\<lparr>timeLeft := 600\<rparr>))))"
  have a: "status ?a = ''running''" "timeLeft ?a \<le> 0"
    by (simp_all add: tick_def startTimer_def initial_def remainingSeconds_def roundSeconds_def)
  have b: "status ?b = ''running''" "timeLeft ?b \<le> 0"
    by (simp_all add: load_def save_def loadRunning_def Let_def startTimer_def stopSound_def initial_def)
  from completion_exactly_once [OF a, where v = App_tsx and tone = True]
    completion_exactly_once [OF b, where v = Part_000 and tone = True]
  show ?thesis by simp
qed

section \<open>What completion does\<close>

text \<open>
  The state \<open>breakEnding\<close> is one the component reaches: 25 minutes of focus entered and
  run to the end, then the break started and run to its deadline.
\<close>

lemma parseInt_twenty_five: "parseInt ''25'' = Some 25"
  by (simp add: parseInt_def isWhiteSpace_def isDigit_def digitValue_def)

lemma breakEnding_reachable: "reachable Part_000 breakEnding"
proof -
  let ?s1 = "updateFocusDuration ''25'' (initial Part_000)"
  let ?s2 = "startTimer Part_000 1699998000000 ?s1"
  let ?s3 = "tick 1699999500000 ?s2"
  let ?s4 = "timerEffect Part_000 True ?s3"
  let ?s5 = "startTimer Part_000 1700000000000 ?s4"
  let ?s6 = "tick 1700000600000 ?s5"
  have s1: "?s1 = (initial Part_000)\<lparr>focusDuration := 25, timeLeft := 1500\<rparr>"
    by (simp add: updateFocusDuration_def inputValue_def orNum_def parseInt_twenty_five
        initial_def Let_def)
  have s3: "?s3 = (initial Part_000)\<lparr>focusDuration := 25, timeLeft := 0, status := ''running'',
      deadline := Some 1699999500000\<rparr>"
    by (unfold s1) (simp add: startTimer_def stopSound_def tick_def initial_def
        remainingSeconds_def roundSeconds_def)
  have s4: "?s4 = (initial Part_000)\<lparr>focusDuration := 25, timeLeft := 600, mode := ''break'',
      completionMessage := ''Foco finalizado''\<rparr>"
    by (unfold s3) (simp add: timerEffect_def handleTimerCompletion_def initial_def)
  have "?s6 = breakEnding"
    by (unfold s4) (simp add: startTimer_def stopSound_def tick_def initial_def breakEnding_def
        defaultFocus_def remainingSeconds_def roundSeconds_def)
  moreover have "reachable Part_000 ?s6"
    by (intro reachable.interval reachable.start reachable.effect reachable.editFocus
        reachable.mount) simp_all
  ultimately show ?thesis by simp
qed

text \<open>
  Claim C3, as stated, fails on \<^verbatim>\<open>part_000\<close>: there the end of a break calls
  \<^verbatim>\<open>playSound(true)\<close>, a looping beep, and sets \<^verbatim>\<open>timeLeft\<close> to 30 minutes whatever
  focus duration was configured (here 25).
\<close>

theorem looping_tone_counterexample:
  "timeLeft (handleTimerCompletion Part_000 True breakEnding) \<noteq> focusDuration breakEnding * 60
   \<and> \<not> list_all oneShot (played (handleTimerCompletion Part_000 True breakEnding))"
  by (simp add: handleTimerCompletion_def playSound_def breakEnding_def Let_def)

text \<open>
  Claim C3, amended. Completion leaves the session idle with no deadline. Ending a focus
  interval switches to break, sets the message \<^verbatim>\<open>Foco finalizado\<close>, sets \<^verbatim>\<open>timeLeft\<close> to
  60 times the break duration the session then holds, and plays nothing. Ending any other
  interval switches to focus and sets \<^verbatim>\<open>timeLeft\<close> to 60 times the focus duration the
  session then holds; \<^verbatim>\<open>App.tsx\<close> plays one synthesiser note if Tone.js is loaded (and
  nothing otherwise), \<^verbatim>\<open>part_000\<close> starts a looping beep. \<^verbatim>\<open>App.tsx\<close> keeps both
  configured durations; \<^verbatim>\<open>part_000\<close> resets the break duration to 10 and, at the end of
  a break, the focus duration to 30.
\<close>

theorem handleTimerCompletion_effect:
  "status (handleTimerCompletion v tone s) = ''idle''
   \<and> deadline (handleTimerCompletion v tone s) = None
   \<and> (if mode s = ''focus''
      then mode (handleTimerCompletion v tone s) = ''break''
         \<and> completionMessage (handleTimerCompletion v tone s) = ''Foco finalizado''
         \<and> timeLeft (handleTimerCompletion v tone s) = breakDuration (handleTimerCompletion v tone s) * 60
         \<and> played (handleTimerCompletion v tone s) = played s
      else mode (handleTimerCompletion v tone s) = ''focus''
         \<and> timeLeft (handleTimerCompletion v tone s) = focusDuration (handleTimerCompletion v tone s) * 60
         \<and> played (handleTimerCompletion v tone s) = played s @
             (case v of App_tsx \<Rightarrow> if tone then [Synth] else [] | Part_000 \<Rightarrow> [Beep True]))
   \<and> (case v of
        App_tsx \<Rightarrow> focusDuration (handleTimerCompletion v tone s) = focusDuration s
                 \<and> breakDuration (handleTimerCompletion v tone s) = breakDuration s
      | Part_000 \<Rightarrow> breakDuration (handleTimerCompletion v tone s) = 10
                 \<and> focusDuration (handleTimerCompletion v tone s)
                     = (if mode s = ''focus'' then focusDuration s else 30))"
  by (cases v) (simp_all add: handleTimerCompletion_def playSound_def Let_def)

section \<open>Reloading a running session\<close>

lemma roundSeconds_shift: "roundSeconds (r - e * 1000) = roundSeconds r - e"
  by (simp add: roundSeconds_def)

text \<open>
  Claim C4. A stored snapshot with status \<^verbatim>\<open>running\<close> and a deadline \<open>d\<close> (present in
  the sense of the source's test, which takes 0 for absent) is loaded \<open>elapsed\<close> seconds
  after the time \<open>t0\<close>. The remaining time at \<open>t0\<close> is what the interval computes from the
  deadline there, \<open>remainingSeconds d t0\<close>. The loaded \<^verbatim>\<open>timeLeft\<close> is that minus the
  elapsed seconds, and 0 if that is negative; the session stays running with the same
  deadline; the stored \<^verbatim>\<open>timeLeft\<close> plays no part.
\<close>

theorem load_running_recomputes:
  assumes "sv_status j = Some ''running''" and "sv_deadline j = Some d" and "d \<noteq> 0"
    and "0 \<le> elapsed"
  shows "timeLeft (fst (load v (t0 + elapsed * 1000) (Json j))) = max 0 (remainingSeconds d t0 - elapsed)
         \<and> status (fst (load v (t0 + elapsed * 1000) (Json j))) = ''running''
         \<and> deadline (fst (load v (t0 + elapsed * 1000) (Json j))) = Some d
         \<and> fst (load v (t0 + elapsed * 1000) (Json (j\<lparr>sv_timeLeft := x\<rparr>)))
             = fst (load v (t0 + elapsed * 1000) (Json j))"
proof -
  have shift: "roundSeconds (d - (t0 + elapsed * 1000)) = roundSeconds (d - t0) - elapsed"
    using roundSeconds_shift [of "d - t0" elapsed] by (simp add: algebra_simps)
  have tl: "timeLeft (fst (load v (t0 + elapsed * 1000) (Json j))) = max 0 (remainingSeconds d t0 - elapsed)"
  proof (cases "d - (t0 + elapsed * 1000) > 0")
    case True
    then have "0 \<le> roundSeconds (d - t0) - elapsed"
      using roundSeconds_nonneg [of "d - (t0 + elapsed * 1000)"] shift by simp
    with True assms shift show ?thesis
      by (simp add: load_def loadRunning_def Let_def remainingSeconds_def)
  next
    case False
    then have "d - t0 \<le> elapsed * 1000" by simp
    then have "roundSeconds (d - t0) \<le> elapsed" by (simp add: roundSeconds_def)
    with False assms show ?thesis
      by (simp add: load_def loadRunning_def Let_def remainingSeconds_def)
  qed
  from assms have rest: "status (fst (load v (t0 + elapsed * 1000) (Json j))) = ''running''
      \<and> deadline (fst (load v (t0 + elapsed * 1000) (Json j))) = Some d
      \<and> fst (load v (t0 + elapsed * 1000) (Json (j\<lparr>sv_timeLeft := x\<rparr>)))
             = fst (load v (t0 + elapsed * 1000) (Json j))"
    by (simp add: load_def loadRunning_def loadConfig_def Let_def)
  from tl rest show ?thesis by simp
qed

text \<open>Ten minutes started, saved at once and reloaded 45 seconds later: 555 seconds are left.\<close>

theorem load_running_recomputes_witness:
  "timeLeft (fst (load App_tsx (1700000000000 + 45 * 1000)
      (save (startTimer App_tsx 1700000000000 ((initial App_tsx)\<lparr>timeLeft := 600\<rparr>))))) = 555"
proof -
  let ?j = "\<lparr>sv_focusDuration = Some 50, sv_breakDuration = Some 10, sv_mode = Some ''focus'',
      sv_status = Some ''running'', sv_timeLeft = Some 600, sv_completionMessage = Some '''',
      sv_deadline = Some 1700000600000\<rparr>"
  have s: "save (startTimer App_tsx 1700000000000 ((initial App_tsx)\<lparr>timeLeft := 600\<rparr>)) = Json ?j"
    by (simp add: save_def startTimer_def initial_def defaultFocus_def)
  have "timeLeft (fst (load App_tsx (1700000000000 + 45 * 1000) (Json ?j)))
        = max 0 (remainingSeconds 1700000600000 1700000000000 - 45)"
    using load_running_recomputes [where j = ?j and d = 1700000600000 and elapsed = 45
        and v = App_tsx and ?t0.0 = 1700000000000]
    by simp
  then show ?thesis
    by (simp add: s remainingSeconds_def roundSeconds_def)
qed

section \<open>Pause, resume and start\<close>

text \<open>
  Claim C5. Pausing a running session leaves it paused with no deadline and the same
  \<^verbatim>\<open>timeLeft\<close>; while it is paused neither the interval nor the timer effect changes
  it; resuming at time \<open>resumed\<close> leaves it running with the \<^verbatim>\<open>timeLeft\<close> it had when
  paused and the deadline \<open>resumed + timeLeft * 1000\<close>.
\<close>

theorem pause_resume_keeps_timeLeft:
  assumes "status s = ''running''"
  shows "status (togglePause paused s) = ''paused''
         \<and> deadline (togglePause paused s) = None
         \<and> timeLeft (togglePause paused s) = timeLeft s
         \<and> tick now (togglePause paused s) = togglePause paused s
         \<and> timerEffect v tone (togglePause paused s) = togglePause paused s
         \<and> status (togglePause resumed (togglePause paused s)) = ''running''
         \<and> timeLeft (togglePause resumed (togglePause paused s)) = timeLeft s
         \<and> deadline (togglePause resumed (togglePause paused s)) = Some (resumed + timeLeft s * 1000)"
  using assms by (simp add: togglePause_def tick_def timerEffect_def)

theorem pause_resume_keeps_timeLeft_witness:
  "timeLeft (togglePause 1700000200000 (togglePause 1700000100000
      (tick 1700000100000 (startTimer App_tsx 1700000000000 (initial App_tsx))))) = 2900
   \<and> deadline (togglePause 1700000200000 (togglePause 1700000100000
      (tick 1700000100000 (startTimer App_tsx 1700000000000 (initial App_tsx)))))
     = Some (1700000200000 + 2900 * 1000)"
proof -
  let ?s = "tick 1700000100000 (startTimer App_tsx 1700000000000 (initial App_tsx))"
  have r: "status ?s = ''running''" and t: "timeLeft ?s = 2900"
    by (simp_all add: tick_def startTimer_def initial_def defaultFocus_def
        remainingSeconds_def roundSeconds_def)
  from pause_resume_keeps_timeLeft [OF r, where paused = 1700000100000 and resumed = 1700000200000] t
  show ?thesis by simp
qed

lemma parseInt_minus_five: "parseInt ''-5'' = Some (- 5)"
  by (simp add: parseInt_def isWhiteSpace_def isDigit_def digitValue_def)

text \<open>
  Claim C6, as stated, fails on an idle session whose \<^verbatim>\<open>timeLeft\<close> is negative, such
  as the one the input \<^verbatim>\<open>-5\<close> leaves: the deadline is set 300 seconds back, and the
  remaining time computed from it is 0, not -300.
\<close>

theorem startTimer_negative_counterexample:
  "reachable App_tsx (updateFocusDuration ''-5'' (initial App_tsx))
   \<and> status (updateFocusDuration ''-5'' (initial App_tsx)) = ''idle''
   \<and> timeLeft (updateFocusDuration ''-5'' (initial App_tsx)) = - 300
   \<and> deadline (startTimer App_tsx 1700000000000 (updateFocusDuration ''-5'' (initial App_tsx)))
       = Some 1699999700000
   \<and> remainingSeconds 1699999700000 1700000000000 = 0
   \<and> remainingSeconds 1699999700000 1700000000000
       \<noteq> timeLeft (updateFocusDuration ''-5'' (initial App_tsx))"
proof -
  have r: "reachable App_tsx (updateFocusDuration ''-5'' (initial App_tsx))"
    by (intro reachable.editFocus reachable.mount)
  have s: "updateFocusDuration ''-5'' (initial App_tsx)
           = (initial App_tsx)\<lparr>focusDuration := - 5, timeLeft := - 300\<rparr>"
    by (simp add: updateFocusDuration_def inputValue_def orNum_def parseInt_minus_five
        initial_def Let_def)
  have "remainingSeconds 1699999700000 1700000000000 = 0"
    by (simp add: remainingSeconds_def roundSeconds_def)
  with r show ?thesis
    by (unfold s) (simp add: startTimer_def initial_def)
qed

text \<open>
  Claim C6, amended. Starting an idle session whose \<^verbatim>\<open>timeLeft\<close> is \<open>t\<close> clears the
  completion message, sets the status to \<^verbatim>\<open>running\<close> and the deadline to
  \<open>now + t * 1000\<close>, and leaves \<^verbatim>\<open>timeLeft\<close> at \<open>t\<close>. The remaining time computed from
  that deadline at the same instant is \<open>max 0 t\<close>: \<open>t\<close> again exactly when \<open>t\<close> is not
  negative. An interval callback at that instant leaves \<^verbatim>\<open>timeLeft\<close> at \<open>t\<close>; for
  \<open>t \<le> 0\<close> there is none, since the timer effect then returns before creating the
  interval.
\<close>

theorem startTimer_sets_deadline:
  assumes "status s = ''idle''"
  shows "completionMessage (startTimer v now s) = ''''
         \<and> status (startTimer v now s) = ''running''
         \<and> deadline (startTimer v now s) = Some (now + timeLeft s * 1000)
         \<and> timeLeft (startTimer v now s) = timeLeft s
         \<and> remainingSeconds (now + timeLeft s * 1000) now = max 0 (timeLeft s)
         \<and> (remainingSeconds (now + timeLeft s * 1000) now = timeLeft s) = (0 \<le> timeLeft s)
         \<and> timeLeft (tick now (startTimer v now s)) = timeLeft s"
proof -
  have r: "remainingSeconds (now + timeLeft s * 1000) now = max 0 (timeLeft s)"
    by (simp add: remainingSeconds_def roundSeconds_def)
  have t: "timeLeft (tick now (startTimer v now s)) = timeLeft s"
  proof (cases "timeLeft s \<le> 0")
    case True
    then show ?thesis
      by (cases v) (simp_all add: startTimer_def stopSound_def tick_def)
  next
    case False
    with r have "remainingSeconds (now + timeLeft s * 1000) now = timeLeft s" by simp
    then show ?thesis
      by (cases v) (simp_all add: startTimer_def stopSound_def tick_def)
  qed
  have "(remainingSeconds (now + timeLeft s * 1000) now = timeLeft s) = (0 \<le> timeLeft s)"
    unfolding r by auto
  with r t show ?thesis
    by (cases v) (simp_all add: startTimer_def stopSound_def)
qed

text \<open>
  The witness starts the initial session of \<^verbatim>\<open>part_000\<close> (30 minutes) and the session
  of the counterexample.
\<close>

theorem startTimer_sets_deadline_witness:
  "deadline (startTimer Part_000 1700000000000 (initial Part_000)) = Some 1700001800000
   \<and> remainingSeconds 1700001800000 1700000000000 = 1800
   \<and> timeLeft (tick 1700000000000 (startTimer Part_000 1700000000000 (initial Part_000))) = 1800
   \<and> remainingSeconds (1700000000000 + - 300 * 1000) 1700000000000 = 0"
proof -
  let ?n = "(initial App_tsx)\<lparr>focusDuration := - 5, timeLeft := - 300\<rparr>"
  have i: "status (initial Part_000) = ''idle''" and t: "timeLeft (initial Part_000) = 1800"
    by (simp_all add: initial_def defaultFocus_def)
  have j: "status ?n = ''idle''" and u: "timeLeft ?n = - 300"
    by (simp_all add: initial_def)
  from startTimer_sets_deadline [OF i, where v = Part_000 and now = 1700000000000] t
    startTimer_sets_deadline [OF j, where v = App_tsx and now = 1700000000000] u
  show ?thesis by simp
qed

text \<open>
  Claim C10. On an idle session the pause toggle returns the state it was given: no cell
  changes.
\<close>

theorem togglePause_idle_noop:
  "status s = ''idle'' \<Longrightarrow> togglePause now s = s"
  by (simp add: togglePause_def)

theorem togglePause_idle_noop_witness:
  "togglePause 1700000000000 (initial App_tsx) = initial App_tsx"
proof -
  have "status (initial App_tsx) = ''idle''" by (simp add: initial_def)
  then show ?thesis by (rule togglePause_idle_noop)
qed

section \<open>Duration edits\<close>

lemma inputValue_fallback:
  "parseInt input = None \<or> parseInt input = Some 0 \<Longrightarrow> inputValue input = 1"
  by (auto simp: inputValue_def orNum_def)

lemma inputValue_parsed:
  "parseInt input = Some n \<Longrightarrow> n \<noteq> 0 \<Longrightarrow> inputValue input = n"
  by (simp add: inputValue_def orNum_def)

text \<open>
  What the edits do with the value they read: the duration is stored in every state, and
  \<^verbatim>\<open>timeLeft\<close> follows only in an idle session of the matching mode.
\<close>

lemma updateFocusDuration_cells:
  "updateFocusDuration input s =
     s\<lparr>focusDuration := inputValue input,
       timeLeft := (if status s = ''idle'' \<and> mode s = ''focus''
                    then inputValue input * 60 else timeLeft s)\<rparr>"
  by (simp add: updateFocusDuration_def Let_def)

lemma updateBreakDuration_cells:
  "updateBreakDuration input s =
     s\<lparr>breakDuration := inputValue input,
       timeLeft := (if status s = ''idle'' \<and> mode s = ''break''
                    then inputValue input * 60 else timeLeft s)\<rparr>"
  by (simp add: updateBreakDuration_def Let_def)

text \<open>
  Claim C7 asks that a negative input be coerced to 1. The fallback \<^verbatim>\<open>|| 1\<close> catches
  \<^verbatim>\<open>NaN\<close> and 0 only: the input \<^verbatim>\<open>-5\<close> in the initial state is stored as a focus
  duration of -5 minutes, and \<^verbatim>\<open>timeLeft\<close> becomes -300.
\<close>

theorem updateFocusDuration_negative_input:
  "inputValue ''-5'' = - 5
   \<and> focusDuration (updateFocusDuration ''-5'' (initial App_tsx)) = - 5
   \<and> timeLeft (updateFocusDuration ''-5'' (initial App_tsx)) = - 300"
  by (simp add: updateFocusDuration_def inputValue_def orNum_def parseInt_minus_five
      initial_def Let_def)

section \<open>The sign of the remaining time\<close>

text \<open>Where the remaining time is computed from the deadline it is never negative.\<close>

lemma tick_timeLeft_nonneg: "0 \<le> timeLeft s \<Longrightarrow> 0 \<le> timeLeft (tick now s)"
  by (simp add: tick_def remainingSeconds_nonneg split: option.splits)

lemma loadRunning_timeLeft_nonneg: "0 \<le> timeLeft (loadRunning v now j d)"
  using roundSeconds_nonneg [of "d - now"] by (simp add: loadRunning_def Let_def)

text \<open>
  Claim C8 asks for \<open>timeLeft \<ge> 0\<close> in every reachable state. The edit of claim C7
  reaches a state where it is negative.
\<close>

theorem negative_timeLeft_reachable:
  "reachable Part_000 (updateFocusDuration ''-5'' (initial Part_000))
   \<and> timeLeft (updateFocusDuration ''-5'' (initial Part_000)) < 0"
proof
  show "reachable Part_000 (updateFocusDuration ''-5'' (initial Part_000))"
    by (intro reachable.editFocus reachable.mount)
  show "timeLeft (updateFocusDuration ''-5'' (initial Part_000)) < 0"
    by (simp add: updateFocusDuration_def inputValue_def orNum_def parseInt_minus_five
        initial_def Let_def)
qed

section \<open>Loading what cannot be parsed\<close>

lemma load_keeps_parsed: "snd (load v now (Json j)) = Json j"
  by (simp add: load_def split: option.splits)

text \<open>
  Claim C9, as stated, fails: a stored object that is no valid session of the
  specification (its status is \<^verbatim>\<open>stopped\<close>) is loaded as it is, and the key is kept.
\<close>

theorem load_accepts_invalid_session:
  "\<not> spec_validSession corruptSnapshot
   \<and> snd (load App_tsx 1700000000000 (Json corruptSnapshot)) = Json corruptSnapshot
   \<and> status (fst (load App_tsx 1700000000000 (Json corruptSnapshot))) = ''stopped''
   \<and> fst (load App_tsx 1700000000000 (Json corruptSnapshot)) \<noteq> initial App_tsx"
  by (simp add: spec_validSession_def corruptSnapshot_def load_def loadStopped_def loadConfig_def
      orStr_def orNum_def initial_def defaultFocus_def)

lemma loadRunning_timeLeft: "timeLeft (loadRunning v now j d) = remainingSeconds d now"
proof (cases "d - now > 0")
  case True
  then show ?thesis
    using roundSeconds_nonneg [of "d - now"]
    by (simp add: loadRunning_def Let_def remainingSeconds_def)
next
  case False
  then have "roundSeconds (d - now) \<le> 0" by (simp add: roundSeconds_below_half)
  with False show ?thesis
    by (simp add: loadRunning_def Let_def remainingSeconds_def)
qed

text \<open>
  Claim C9, amended. When \<^verbatim>\<open>JSON.parse\<close> throws on the stored text, or returns
  \<^verbatim>\<open>null\<close>, the load removes the key and the session stays the initial one. Every
  other stored value, a valid session or not, is kept under the key and loaded without a
  check. The two durations, the mode and the completion message are read from it, with
  the defaults where a field is missing or falsy. With the status \<^verbatim>\<open>running\<close> and a
  deadline that is neither null nor 0 the session is running with that deadline and
  \<^verbatim>\<open>timeLeft\<close> is computed from it. Otherwise the stored status (\<^verbatim>\<open>idle\<close> if missing
  or empty) and the stored \<^verbatim>\<open>timeLeft\<close> (60 times the loaded focus duration if missing)
  are taken as they are, and the deadline is cleared.
\<close>

theorem load_discards_only_unparsable:
  "(st = BadJSON \<or> st = JsonNull \<longrightarrow> load v now st = (initial v, NoItem))
   \<and> (st = Json j \<longrightarrow>
        snd (load v now st) = Json j
        \<and> focusDuration (fst (load v now st)) = orNum (sv_focusDuration j) (defaultFocus v)
        \<and> breakDuration (fst (load v now st)) = orNum (sv_breakDuration j) 10
        \<and> mode (fst (load v now st)) = orStr (sv_mode j) ''focus''
        \<and> completionMessage (fst (load v now st)) = orStr (sv_completionMessage j) ''''
        \<and> (if sv_status j = Some ''running'' \<and> sv_deadline j \<noteq> None \<and> sv_deadline j \<noteq> Some 0
           then status (fst (load v now st)) = ''running''
              \<and> deadline (fst (load v now st)) = sv_deadline j
              \<and> Some (timeLeft (fst (load v now st)))
                  = map_option (\<lambda>d. remainingSeconds d now) (sv_deadline j)
           else status (fst (load v now st)) = orStr (sv_status j) ''idle''
              \<and> deadline (fst (load v now st)) = None
              \<and> timeLeft (fst (load v now st))
                  = (case sv_timeLeft j of Some t \<Rightarrow> t
                     | None \<Rightarrow> orNum (sv_focusDuration j) (defaultFocus v) * 60)))"
proof (rule conjI)
  show "st = BadJSON \<or> st = JsonNull \<longrightarrow> load v now st = (initial v, NoItem)"
    by (auto simp: load_def)
next
  have "snd (load v now st) = Json j
        \<and> focusDuration (fst (load v now st)) = orNum (sv_focusDuration j) (defaultFocus v)
        \<and> breakDuration (fst (load v now st)) = orNum (sv_breakDuration j) 10
        \<and> mode (fst (load v now st)) = orStr (sv_mode j) ''focus''
        \<and> completionMessage (fst (load v now st)) = orStr (sv_completionMessage j) ''''
        \<and> (if sv_status j = Some ''running'' \<and> sv_deadline j \<noteq> None \<and> sv_deadline j \<noteq> Some 0
           then status (fst (load v now st)) = ''running''
              \<and> deadline (fst (load v now st)) = sv_deadline j
              \<and> Some (timeLeft (fst (load v now st)))
                  = map_option (\<lambda>d. remainingSeconds d now) (sv_deadline j)
           else status (fst (load v now st)) = orStr (sv_status j) ''idle''
              \<and> deadline (fst (load v now st)) = None
              \<and> timeLeft (fst (load v now st))
                  = (case sv_timeLeft j of Some t \<Rightarrow> t
                     | None \<Rightarrow> orNum (sv_focusDuration j) (defaultFocus v) * 60))"
    if st: "st = Json j"
  proof (cases "sv_deadline j")
    case None
    with st show ?thesis
      by (simp add: load_def loadStopped_def loadConfig_def)
  next
    case (Some d)
    show ?thesis
    proof (cases "sv_status j = Some ''running'' \<and> d \<noteq> 0")
      case True
      with st Some have l: "load v now st = (loadRunning v now j d, Json j)"
        by (simp add: load_def)
      have "status (loadRunning v now j d) = ''running''"
        and "deadline (loadRunning v now j d) = Some d"
        and "focusDuration (loadRunning v now j d) = orNum (sv_focusDuration j) (defaultFocus v)"
        and "breakDuration (loadRunning v now j d) = orNum (sv_breakDuration j) 10"
        and "mode (loadRunning v now j d) = orStr (sv_mode j) ''focus''"
        and "completionMessage (loadRunning v now j d) = orStr (sv_completionMessage j) ''''"
        by (simp_all add: loadRunning_def loadConfig_def Let_def)
      with Some True show ?thesis
        by (simp add: l loadRunning_timeLeft)
    next
      case False
      with st Some have l: "load v now st = (loadStopped v j, Json j)"
        by (auto simp: load_def)
      from Some False show ?thesis
        by (auto simp: l loadStopped_def loadConfig_def)
    qed
  qed
  then show "st = Json j \<longrightarrow>
        snd (load v now st) = Json j
        \<and> focusDuration (fst (load v now st)) = orNum (sv_focusDuration j) (defaultFocus v)
        \<and> breakDuration (fst (load v now st)) = orNum (sv_breakDuration j) 10
        \<and> mode (fst (load v now st)) = orStr (sv_mode j) ''focus''
        \<and> completionMessage (fst (load v now st)) = orStr (sv_completionMessage j) ''''
        \<and> (if sv_status j = Some ''running'' \<and> sv_deadline j \<noteq> None \<and> sv_deadline j \<noteq> Some 0
           then status (fst (load v now st)) = ''running''
              \<and> deadline (fst (load v now st)) = sv_deadline j
              \<and> Some (timeLeft (fst (load v now st)))
                  = map_option (\<lambda>d. remainingSeconds d now) (sv_deadline j)
           else status (fst (load v now st)) = orStr (sv_status j) ''idle''
              \<and> deadline (fst (load v now st)) = None
              \<and> timeLeft (fst (load v now st))
                  = (case sv_timeLeft j of Some t \<Rightarrow> t
                     | None \<Rightarrow> orNum (sv_focusDuration j) (defaultFocus v) * 60))"
    by (rule impI)
qed

text \<open>
  The witness loads an unparsable text, the text \<^verbatim>\<open>null\<close>, the object with status
  \<^verbatim>\<open>stopped\<close>, and a running snapshot whose stored \<^verbatim>\<open>timeLeft\<close> of 7 gives way to
  the 555 seconds its deadline leaves.
\<close>

theorem load_discards_only_unparsable_witness:
  "load App_tsx 1700000000000 BadJSON = (initial App_tsx, NoItem)
   \<and> load Part_000 1700000000000 JsonNull = (initial Part_000, NoItem)
   \<and> snd (load App_tsx 1700000000000 (Json corruptSnapshot)) = Json corruptSnapshot
   \<and> status (fst (load App_tsx 1700000000000 (Json corruptSnapshot))) = ''stopped''
   \<and> timeLeft (fst (load App_tsx 1700000000000 (Json corruptSnapshot))) = 1500
   \<and> timeLeft (fst (load App_tsx 1700000045000 (Json
        \<lparr>sv_focusDuration = Some 50, sv_breakDuration = Some 10, sv_mode = Some ''focus'',
         sv_status = Some ''running'', sv_timeLeft = Some 7, sv_completionMessage = Some '''',
         sv_deadline = Some 1700000600000\<rparr>))) = 555"
proof -
  let ?r = "\<lparr>sv_focusDuration = Some 50, sv_breakDuration = Some 10, sv_mode = Some ''focus'',
         sv_status = Some ''running'', sv_timeLeft = Some 7, sv_completionMessage = Some '''',
         sv_deadline = Some 1700000600000\<rparr>"
  have c: "sv_status corruptSnapshot = Some ''stopped''" "sv_deadline corruptSnapshot = None"
    "sv_timeLeft corruptSnapshot = Some 1500"
    by (simp_all add: corruptSnapshot_def)
  have e: "remainingSeconds 1700000600000 1700000045000 = 555"
    by (simp add: remainingSeconds_def roundSeconds_def)
  from load_discards_only_unparsable [where st = BadJSON and v = App_tsx and now = 1700000000000]
    load_discards_only_unparsable [where st = JsonNull and v = Part_000 and now = 1700000000000]
    load_discards_only_unparsable [where st = "Json corruptSnapshot" and j = corruptSnapshot
      and v = App_tsx and now = 1700000000000]
    load_discards_only_unparsable [where st = "Json ?r" and j = ?r
      and v = App_tsx and now = 1700000045000]
    c e
  show ?thesis by (simp add: orStr_def)
qed

end
